theory Spec2Isabelle
  imports Main
begin

section \<open>Values of the traced program\<close>

subsection \<open>Symbolic integers\<close>

text \<open>
  A symbolic shape expression, as a \<open>torch.SymInt\<close> carries it: integer literals,
  shape symbols, sums and products.
\<close>

datatype sym_expr = Num int | Sym nat | Add sym_expr sym_expr | Mul sym_expr sym_expr

fun free_symbols :: "sym_expr \<Rightarrow> nat list" where
  "free_symbols (Num n) = []"
| "free_symbols (Sym x) = [x]"
| "free_symbols (Add a b) = free_symbols a @ free_symbols b"
| "free_symbols (Mul a b) = free_symbols a @ free_symbols b"

text \<open>The value of an expression without symbols; \<open>None\<close> when a symbol occurs.\<close>

fun expr_value :: "sym_expr \<Rightarrow> int option" where
  "expr_value (Num n) = Some n"
| "expr_value (Sym x) = None"
| "expr_value (Add a b) =
     (case expr_value a of None \<Rightarrow> None
      | Some x \<Rightarrow> (case expr_value b of None \<Rightarrow> None | Some y \<Rightarrow> Some (x + y)))"
| "expr_value (Mul a b) =
     (case expr_value a of None \<Rightarrow> None
      | Some x \<Rightarrow> (case expr_value b of None \<Rightarrow> None | Some y \<Rightarrow> Some (x * y)))"

text \<open>
  An extent of a size or stride tuple: a Python \<open>int\<close> (unbounded), or a
  \<open>torch.SymInt\<close> with its expression.
\<close>

datatype py_int = PyInt int | SymInt sym_expr

datatype error =
    Unsupported string
  | TypeError
  | AttributeError
  | IndexError
  | AssertionError
  | NotImplementedError
  | GuardOnDataDependentSymNode
  | UserError
  | OracleError

text \<open>
  \<open>is_symbolic\<close> of \<open>torch.fx.experimental.symbolic_shapes\<close>: false for a Python
  int, true for a \<open>SymInt\<close>.
\<close>

fun is_symbolic :: "py_int \<Rightarrow> bool" where
  "is_symbolic (PyInt n) = False"
| "is_symbolic (SymInt e) = True"

text \<open>
  Modelled from the spec: \<open>has_free_symbols\<close> of
  \<open>torch.fx.experimental.symbolic_shapes\<close> (not part of the source file): a value has
  free symbols when one of its symbolic components mentions a shape symbol.
\<close>

fun has_free_symbols :: "py_int \<Rightarrow> bool" where
  "has_free_symbols (PyInt n) = False"
| "has_free_symbols (SymInt e) = (free_symbols e \<noteq> [])"

definition has_free_symbols_tuple :: "py_int list \<Rightarrow> bool" where
  "has_free_symbols_tuple xs = list_ex has_free_symbols xs"

text \<open>
  Python's \<open>int(s)\<close>. On a \<open>SymInt\<close> without free symbols it is the value of the
  expression. With a free symbol the conversion needs a guard of the shape environment;
  symbols are taken here as unbacked, for which the conversion raises.
\<close>

fun py_int_cast :: "py_int \<Rightarrow> error + int" where
  "py_int_cast (PyInt n) = Inr n"
| "py_int_cast (SymInt e) =
     (case expr_value e of None \<Rightarrow> Inl GuardOnDataDependentSymNode | Some n \<Rightarrow> Inr n)"

text \<open>A comprehension whose body may raise: the first error aborts it.\<close>

fun map_raise :: "('a \<Rightarrow> error + 'b) \<Rightarrow> 'a list \<Rightarrow> error + 'b list" where
  "map_raise f [] = Inr []"
| "map_raise f (x # xs) =
     (case f x of Inl e \<Rightarrow> Inl e
      | Inr y \<Rightarrow> (case map_raise f xs of Inl e \<Rightarrow> Inl e | Inr ys \<Rightarrow> Inr (y # ys)))"

subsection \<open>Tensor values\<close>

datatype dtype =
    torch_bool | torch_uint8 | torch_int8 | torch_int16 | torch_int32 | torch_int64
  | torch_float16 | torch_bfloat16 | torch_float32 | torch_float64
  | torch_complex64 | torch_complex128

text \<open>\<open>dtype.itemsize\<close> and \<open>dtype.is_floating_point\<close>, the tables of the framework.\<close>

fun itemsize :: "dtype \<Rightarrow> int" where
  "itemsize torch_bool = 1"
| "itemsize torch_uint8 = 1"
| "itemsize torch_int8 = 1"
| "itemsize torch_int16 = 2"
| "itemsize torch_int32 = 4"
| "itemsize torch_int64 = 8"
| "itemsize torch_float16 = 2"
| "itemsize torch_bfloat16 = 2"
| "itemsize torch_float32 = 4"
| "itemsize torch_float64 = 8"
| "itemsize torch_complex64 = 8"
| "itemsize torch_complex128 = 16"

fun is_floating_point :: "dtype \<Rightarrow> bool" where
  "is_floating_point torch_float16 = True"
| "is_floating_point torch_bfloat16 = True"
| "is_floating_point torch_float32 = True"
| "is_floating_point torch_float64 = True"
| "is_floating_point d = False"

datatype device = Device (device_type: string) (device_index: "int option")

datatype layout = torch_strided | torch_sparse_coo | torch_sparse_csr | torch_jagged

datatype memory_format =
  contiguous_format | preserve_format | channels_last | channels_last_3d

type_synonym class_type = string

text \<open>
  A (fake) tensor as the tracer inspects it. \<open>t_contiguous\<close> lists the memory
  formats \<open>x\<close> for which \<open>value.is_contiguous(memory_format=x)\<close> holds;
  \<open>t_is_batched\<close> answers \<open>torch._C._functorch.is_batchedtensor(value)\<close>.
\<close>

record tensor_value =
  t_dtype :: dtype
  t_device :: device
  t_layout :: layout
  t_size :: "py_int list"
  t_stride :: "py_int list"
  t_requires_grad :: bool
  t_is_quantized :: bool
  t_is_sparse :: bool
  t_class :: class_type
  t_is_batched :: bool
  t_contiguous :: "memory_format list"

text \<open>
  Modelled from the spec: \<open>has_free_symbols\<close> on a tensor: the value has an unresolved
  symbolic dimension, in its sizes or its strides.
\<close>

definition has_free_symbols_tensor :: "tensor_value \<Rightarrow> bool" where
  "has_free_symbols_tensor v =
     (has_free_symbols_tuple (t_size v) \<or> has_free_symbols_tuple (t_stride v))"

definition value_is_contiguous :: "tensor_value \<Rightarrow> memory_format \<Rightarrow> bool" where
  "value_is_contiguous v x = (x \<in> set (t_contiguous v))"

text \<open>\<open>torch._prims_common._memory_formats\<close>, in a fixed order of iteration.\<close>

definition memory_formats :: "memory_format list" where
  "memory_formats = [contiguous_format, preserve_format, channels_last, channels_last_3d]"

subsection \<open>\<open>TensorVariable.specialize\<close>\<close>

text \<open>
  The dictionary \<open>props\<close>. The keys \<open>size\<close>, \<open>stride\<close> and \<open>is_contiguous\<close> may be
  missing (\<open>None\<close>); the key \<open>is_contiguous\<close>, when present, may hold Python's
  \<open>None\<close> (\<open>Some None\<close>).
\<close>

record props =
  p_dtype :: dtype
  p_device :: device
  p_layout :: layout
  p_ndim :: int
  p_requires_grad :: bool
  p_is_quantized :: bool
  p_is_sparse :: bool
  p_class_type :: class_type
  p_size :: "py_int list option"
  p_stride :: "py_int list option"
  p_is_contiguous :: "memory_format list option option"

definition specialize :: "tensor_value \<Rightarrow> error + props" where
  "specialize v =
     (let props = \<lparr>p_dtype = t_dtype v, p_device = t_device v, p_layout = t_layout v,
                   p_ndim = int (length (t_size v)), p_requires_grad = t_requires_grad v,
                   p_is_quantized = t_is_quantized v, p_is_sparse = t_is_sparse v,
                   p_class_type = t_class v,
                   p_size = None, p_stride = None, p_is_contiguous = None\<rparr>
      in if \<not> has_free_symbols_tensor v then
           (case map_raise (\<lambda>s. if is_symbolic s
                                  then (case py_int_cast s of Inl e \<Rightarrow> Inl e
                                        | Inr n \<Rightarrow> Inr (PyInt n))
                                  else Inr s) (t_size v) of
              Inl e \<Rightarrow> Inl e
            | Inr sz \<Rightarrow>
                Inr (props\<lparr>p_size := Some sz,
                           p_stride := Some (t_stride v),
                           p_is_contiguous :=
                             Some (if t_is_batched v then None
                                   else Some (filter (value_is_contiguous v) memory_formats))\<rparr>))
         else Inr props)"

section \<open>Variable trackers and the trace state\<close>

datatype source = LocalSource string | GlobalSource string | AttrSource source string

text \<open>
  Python constants a \<open>ConstantVariable\<close> holds. \<open>ConstantVariable.create\<close> belongs to
  another module and is taken as the constructor.
\<close>

datatype const =
    CNone | CBool bool | CInt py_int | CStr string | CTuple "const list"
  | CDtype dtype | CDevice device | CLayout layout

text \<open>
  What a graph node may hold as its example value, and what a symbolic scalar may be:
  a Python int or bool, a \<open>sympy.Integer\<close>, a \<open>torch.SymInt\<close>, a tensor, a
  \<open>torch.Size\<close>.
\<close>

datatype example_value =
    ExInt int | ExBool bool | ExSympyInteger int
  | ExSymInt sym_expr
  | ExTensor tensor_value
  | ExSize "py_int list"

text \<open>Arguments of a graph node: another node, a constant, a tuple of arguments.\<close>

datatype arg = ANode nat | AConst const | ATuple "arg list"

datatype node =
  Node (node_op: string) (node_target: string) (node_args: "arg list")
       (node_kwargs: "(string \<times> arg) list")

text \<open>What the oracle sees of an argument: a node's example value, if it has one.\<close>

datatype fake_arg = FNode "example_value option" | FConst const | FTuple "fake_arg list"

datatype guard = TYPE_MATCH "source option" | HASATTR source

text \<open>
  The classes of this file whose instances are \<open>TensorVariable\<close>s. The extra fields
  of \<open>UnspecializedPythonVariable\<close> and \<open>FakeItemVariable\<close> (\<open>raw_value\<close>,
  \<open>need_unwrap\<close>) play no part below and are left out.
\<close>

datatype tensor_cls =
  TensorVariableT | NumpyNdarrayVariableT | UnspecializedPythonVariableT | FakeItemVariableT

text \<open>
  The fields of a \<open>TensorVariable\<close>; \<open>proxy\<close> is the index of its node in the graph,
  and \<open>None\<close> is Python's \<open>None\<close>.
\<close>

record tensor_variable =
  tv_class :: tensor_cls
  proxy :: nat
  dtype :: "dtype option"
  device :: "device option"
  layout :: "layout option"
  ndim :: "int option"
  size' :: "py_int list option"
  stride :: "py_int list option"
  requires_grad :: "bool option"
  is_quantized :: "bool option"
  is_contiguous :: "memory_format list option"
  is_sparse :: "bool option"
  class_type :: "class_type option"
  source :: "source option"

datatype variable =
    TensorVariable tensor_variable
  | ConstantVariable const
  | SizeVariable "variable list"
  | TupleVariable "variable list"
  | SymNodeVariable nat example_value
  | TensorSubclassVariable class_type "source option"
  | TensorWithTFOverrideVariable tensor_variable class_type variable
  | UserDefinedClassVariable "class_type option"
  | DelayGraphBreakVariable source
  | BuilderVariable source
  | OtherVariable string

text \<open>
  The translator \<open>tx\<close> with the global switches the handlers read and the output
  graph they write:
  \<^item> \<open>strict_mode_banned_ops\<close> is \<open>config._autograd_backward_strict_mode_banned_ops\<close>,
    \<open>trace_numpy\<close> is \<open>config.trace_numpy\<close>, \<open>np_available\<close> says that \<open>np\<close> is a
    module, \<open>grad_enabled\<close> is \<open>torch.is_grad_enabled()\<close>;
  \<^item> \<open>nodes\<close> are the nodes recorded so far (\<open>create_proxy\<close> appends),
    \<open>node_meta\<close> is \<open>node.meta["example_value"]\<close>, \<open>guards\<close> the installed guards;
  \<^item> \<open>fake_op\<close> is the oracle: the example value of an operation (kind, target)
    applied to the example values of its arguments, \<open>None\<close> when it fails;
  \<^item> \<open>inplace_view_ops\<close> lists the names of \<open>torch.ops.aten\<close> whose first overload
    is tagged \<open>inplace_view\<close>; \<open>getset_descriptors\<close> lists the names that
    \<open>inspect.getattr_static(torch.Tensor, name)\<close> finds as getset descriptors;
  \<^item> \<open>scope\<close> evaluates the name of a source in the local and global scope
    (\<open>None\<close> when the evaluation raises);
  \<^item> \<open>breakpoints\<close> counts the calls of \<open>breakpoint()\<close>.
\<close>

datatype attr_value = CallableAttr | DataAttr

record real_value =
  is_none :: bool
  has_getattribute :: bool
  has_custom_getattr :: bool
  attrs :: "(string \<times> attr_value) list"

record tx =
  strict_checks_enabled :: bool
  strict_mode_banned_ops :: "string list"
  trace_numpy :: bool
  np_available :: bool
  grad_enabled :: bool
  nodes :: "node list"
  node_meta :: "nat \<Rightarrow> example_value option"
  guards :: "guard list"
  fake_op :: "string \<Rightarrow> string \<Rightarrow> fake_arg list \<Rightarrow> example_value option"
  inplace_view_ops :: "string list"
  getset_descriptors :: "string list"
  scope :: "source \<Rightarrow> real_value option"
  breakpoints :: nat

type_synonym 'a result = "(error + 'a) \<times> tx"

text \<open>\<open>unimplemented(msg)\<close> raises the unsupported-construct signal.\<close>

definition unimplemented :: "string \<Rightarrow> error" where
  "unimplemented msg = Unsupported msg"

text \<open>\<open>tx.output.create_proxy(kind, target, args, kwargs)\<close> records a node.\<close>

definition create_proxy ::
  "string \<Rightarrow> string \<Rightarrow> arg list \<Rightarrow> (string \<times> arg) list \<Rightarrow> tx \<Rightarrow> nat \<times> tx" where
  "create_proxy kind target as kw t =
     (length (nodes t), t\<lparr>nodes := nodes t @ [Node kind target as kw]\<rparr>)"

definition install_guard :: "guard \<Rightarrow> tx \<Rightarrow> tx" where
  "install_guard g t = t\<lparr>guards := guards t @ [g]\<rparr>"

section \<open>The oracle and the wrapping of graph nodes\<close>

fun fake_of_arg :: "tx \<Rightarrow> arg \<Rightarrow> fake_arg" where
  "fake_of_arg t (ANode n) = FNode (node_meta t n)"
| "fake_of_arg t (AConst c) = FConst c"
| "fake_of_arg t (ATuple as) = FTuple (map (fake_of_arg t) as)"

text \<open>
  Modelled from the spec: \<open>get_fake_value(node, tx)\<close> of \<open>utils.py\<close>, the metadata
  oracle: it performs the one abstract operation of the node on the example values of
  the node's arguments, and is deterministic.
\<close>

definition get_fake_value :: "nat \<Rightarrow> tx \<Rightarrow> error + example_value" where
  "get_fake_value n t =
     (if n < length (nodes t) then
        (case fake_op t (node_op (nodes t ! n)) (node_target (nodes t ! n))
                (map (fake_of_arg t) (node_args (nodes t ! n))) of
           None \<Rightarrow> Inl OracleError
         | Some v \<Rightarrow> Inr v)
      else Inl OracleError)"



subsection \<open>\<open>SymNodeVariable.create\<close>\<close>


subsection \<open>Proxies of variables\<close>

text \<open>
  Modelled from the spec: proxy extraction (\<open>as_proxy\<close> of the tracker classes and
  \<open>proxy_args_kwargs\<close> of \<open>utils.py\<close>, of which only \<open>TensorVariable.as_proxy\<close> and
  \<open>SymNodeVariable.as_proxy\<close> are in the source file). A tracker with no graph
  representation raises \<open>NotImplementedError\<close>, which \<open>proxy_args_kwargs\<close> turns into
  the unsupported-construct signal.
\<close>

fun as_proxy :: "variable \<Rightarrow> error + arg"
  and as_proxies :: "variable list \<Rightarrow> error + arg list" where
  "as_proxy (TensorVariable tv) = Inr (ANode (proxy tv))"
| "as_proxy (SymNodeVariable p s) = Inr (ANode p)"
| "as_proxy (TensorWithTFOverrideVariable tv c f) = Inr (ANode (proxy tv))"
| "as_proxy (ConstantVariable c) = Inr (AConst c)"
| "as_proxy (TupleVariable items) =
     (case as_proxies items of Inl e \<Rightarrow> Inl e | Inr as \<Rightarrow> Inr (ATuple as))"
| "as_proxy (SizeVariable items) =
     (case as_proxies items of Inl e \<Rightarrow> Inl e | Inr as \<Rightarrow> Inr (ATuple as))"
| "as_proxy (TensorSubclassVariable c src) = Inl NotImplementedError"
| "as_proxy (UserDefinedClassVariable c) = Inl NotImplementedError"
| "as_proxy (DelayGraphBreakVariable src) = Inl NotImplementedError"
| "as_proxy (BuilderVariable src) = Inl NotImplementedError"
| "as_proxy (OtherVariable s) = Inl NotImplementedError"
| "as_proxies [] = Inr []"
| "as_proxies (v # vs) =
     (case as_proxy v of Inl e \<Rightarrow> Inl e
      | Inr a \<Rightarrow> (case as_proxies vs of Inl e \<Rightarrow> Inl e | Inr as \<Rightarrow> Inr (a # as)))"

definition proxy_args_kwargs ::
  "variable list \<Rightarrow> (string \<times> variable) list \<Rightarrow> error + (arg list \<times> (string \<times> arg) list)" where
  "proxy_args_kwargs args kwargs =
     (case as_proxies args of
        Inl e \<Rightarrow> Inl (unimplemented ''call_function args'')
      | Inr as \<Rightarrow>
          (case map_raise (\<lambda>(k, v). case as_proxy v of Inl e \<Rightarrow> Inl e
                                        | Inr a \<Rightarrow> Inr (k, a)) kwargs of
             Inl e \<Rightarrow> Inl (unimplemented ''call_function args'')
           | Inr kw \<Rightarrow> Inr (as, kw)))"

subsection \<open>Wrapping a node into a variable\<close>

text \<open>\<open>target_cls(proxy, **specialize(example_value), **options)\<close>.\<close>

definition new_tensor_variable ::
  "tensor_cls \<Rightarrow> nat \<Rightarrow> props \<Rightarrow> source option \<Rightarrow> tensor_variable" where
  "new_tensor_variable target_cls p pr src =
     \<lparr>tv_class = target_cls, proxy = p,
      dtype = Some (p_dtype pr), device = Some (p_device pr), layout = Some (p_layout pr),
      ndim = Some (p_ndim pr), size' = p_size pr, stride = p_stride pr,
      requires_grad = Some (p_requires_grad pr), is_quantized = Some (p_is_quantized pr),
      is_contiguous = (case p_is_contiguous pr of None \<Rightarrow> None | Some c \<Rightarrow> c),
      is_sparse = Some (p_is_sparse pr), class_type = Some (p_class_type pr),
      source = src\<rparr>"

text \<open>
  The items of a wrapped \<open>torch.Size\<close>: a constant for an int, a symbolic scalar on
  a fresh subscript node for a \<open>SymInt\<close>.
\<close>

fun wrap_size_items :: "nat \<Rightarrow> nat \<Rightarrow> py_int list \<Rightarrow> tx \<Rightarrow> variable list \<times> tx" where
  "wrap_size_items p i [] t = ([], t)"
| "wrap_size_items p i (PyInt n # xs) t =
     (let (vs, t') = wrap_size_items p (i + 1) xs t
      in (ConstantVariable (CInt (PyInt n)) # vs, t'))"
| "wrap_size_items p i (SymInt e # xs) t =
     (let (q, t1) = create_proxy ''call_function'' ''operator.getitem''
                      [ANode p, AConst (CInt (PyInt (int i)))] [] t;
          t2 = t1\<lparr>node_meta := (node_meta t1)(q \<mapsto> ExSymInt e)\<rparr>;
          (vs, t3) = wrap_size_items p (i + 1) xs t2
      in (SymNodeVariable q (ExSymInt e) # vs, t3))"

text \<open>
  Modelled from the spec: \<open>wrap_fx_proxy_cls\<close> of \<open>builder.py\<close>, the value-wrapping
  service: it takes the example value of the node (recorded, or else asked of the
  oracle), records it, and chooses the kind of variable from the example value's
  runtime type; a tensor becomes a variable of the requested class \<open>target_cls\<close> with
  the metadata \<open>specialize\<close> extracts.
\<close>

definition wrap_fx_proxy_cls ::
  "tensor_cls \<Rightarrow> nat \<Rightarrow> source option \<Rightarrow> tx \<Rightarrow> variable result" where
  "wrap_fx_proxy_cls target_cls p src t =
     (case (case node_meta t p of None \<Rightarrow> get_fake_value p t | Some ev \<Rightarrow> Inr ev) of
        Inl e \<Rightarrow> (Inl e, t)
      | Inr ev \<Rightarrow>
          (let t1 = t\<lparr>node_meta := (node_meta t)(p \<mapsto> ev)\<rparr> in
           case ev of
             ExTensor v \<Rightarrow>
               (case specialize v of
                  Inl e \<Rightarrow> (Inl e, t1)
                | Inr pr \<Rightarrow> (Inr (TensorVariable (new_tensor_variable target_cls p pr src)), t1))
           | ExSize xs \<Rightarrow>
               (let (vs, t2) = wrap_size_items p 0 xs t1 in (Inr (SizeVariable vs), t2))
           | ExSymInt e \<Rightarrow> (Inr (SymNodeVariable p ev), t1)
           | ExInt n \<Rightarrow> (Inr (ConstantVariable (CInt (PyInt n))), t1)
           | ExBool b \<Rightarrow> (Inr (ConstantVariable (CBool b)), t1)
           | ExSympyInteger n \<Rightarrow> (Inr (ConstantVariable (CInt (PyInt n))), t1)))"

definition wrap_fx_proxy :: "nat \<Rightarrow> source option \<Rightarrow> tx \<Rightarrow> variable result" where
  "wrap_fx_proxy p src t = wrap_fx_proxy_cls TensorVariableT p src t"

section \<open>\<open>TensorVariable\<close>: method dispatch\<close>

text \<open>
  \<open>NumpyNdarrayVariable.create\<close> wraps the node as a \<open>NumpyNdarrayVariable\<close>.
\<close>

definition NumpyNdarrayVariable_create :: "nat \<Rightarrow> tx \<Rightarrow> variable result" where
  "NumpyNdarrayVariable_create p t = wrap_fx_proxy_cls NumpyNdarrayVariableT p None t"

text \<open>
  \<open>TensorVariable.call_method\<close>. The parameter \<open>handler\<close> is the outcome of the lookup
  \<open>getattr(self, f"method_{name}")\<close>: \<open>None\<close> when the class has no such handler,
  otherwise the handler applied to the arguments. A handler that returns nothing
  (\<open>Inr None\<close>) declines, and the call is recorded in the graph.
\<close>

definition TensorVariable_call_method ::
  "tensor_variable \<Rightarrow> string \<Rightarrow> variable list \<Rightarrow> (string \<times> variable) list \<Rightarrow>
   (tx \<Rightarrow> variable option result) option \<Rightarrow> tx \<Rightarrow> variable result" where
  "TensorVariable_call_method self name args kwargs handler t =
     (if strict_checks_enabled t \<and> name \<in> set (strict_mode_banned_ops t) then
        (Inl (unimplemented (''Illegal method invocation '' @ name @ '' in strict mode'')), t)
      else
        (case (case handler of
                 None \<Rightarrow> (Inr None, t)
               | Some h \<Rightarrow>
                   (case h t of
                      (Inl TypeError, t') \<Rightarrow>
                        (Inl (unimplemented (''unhandled args for '' @ name)), t')
                    | r \<Rightarrow> r)) of
           (Inl e, t') \<Rightarrow> (Inl e, t')
         | (Inr (Some result), t') \<Rightarrow> (Inr result, t')
         | (Inr None, t') \<Rightarrow>
             (case proxy_args_kwargs (TensorVariable self # args) kwargs of
                Inl e \<Rightarrow> (Inl e, t')
              | Inr (as, kw) \<Rightarrow>
                  (let (p, t'') = create_proxy ''call_method'' name as kw t'
                   in wrap_fx_proxy p None t''))))"

text \<open>\<open>NumpyNdarrayVariable.patch_args\<close> and \<open>NumpyNdarrayVariable.call_method\<close>.\<close>

definition patch_args ::
  "string \<Rightarrow> variable list \<Rightarrow> (string \<times> variable) list \<Rightarrow>
   variable list \<times> (string \<times> variable) list" where
  "patch_args name args kwargs =
     (if name = ''clip'' then
        (args, map (\<lambda>(k, v). (if k = ''a_min'' then ''min''
                               else if k = ''a_max'' then ''max'' else k, v)) kwargs)
      else (args, kwargs))"

definition NumpyNdarrayVariable_call_method ::
  "tensor_variable \<Rightarrow> string \<Rightarrow> variable list \<Rightarrow> (string \<times> variable) list \<Rightarrow>
   (tx \<Rightarrow> variable option result) option \<Rightarrow> tx \<Rightarrow> variable result" where
  "NumpyNdarrayVariable_call_method self name args0 kwargs0 handler t =
     (let (args, kwargs) = patch_args name args0 kwargs0 in
      if name \<in> {''__len__'', ''size'', ''tolist''} then
        TensorVariable_call_method self name args kwargs handler t
      else if name = ''tobytes'' then
        (Inl (unimplemented ''tobytes is not modelled in torch._numpy''), t)
      else
        (case proxy_args_kwargs (TensorVariable self # args) kwargs of
           Inl e \<Rightarrow> (Inl e, t)
         | Inr (as, kw) \<Rightarrow>
             (let (p, t') = create_proxy ''call_function'' (''numpy_method_wrapper '' @ name) as kw t
              in NumpyNdarrayVariable_create p t')))"

text \<open>\<open>self.call_method(...)\<close>: the method of the class of \<open>self\<close>.\<close>

definition call_method ::
  "tensor_variable \<Rightarrow> string \<Rightarrow> variable list \<Rightarrow> (string \<times> variable) list \<Rightarrow>
   (tx \<Rightarrow> variable option result) option \<Rightarrow> tx \<Rightarrow> variable result" where
  "call_method self name args kwargs handler t =
     (if tv_class self = NumpyNdarrayVariableT
      then NumpyNdarrayVariable_call_method self name args kwargs handler t
      else TensorVariable_call_method self name args kwargs handler t)"

subsection \<open>\<open>size\<close> and \<open>stride\<close>\<close>

text \<open>
  \<open>SymNodeVariable.evaluate_expr\<close>: \<open>guard_scalar(self.sym_num)\<close>, with
  \<open>GuardOnDataDependentSymNode\<close> turned into a \<open>UserError\<close>.
\<close>

fun evaluate_expr :: "example_value \<Rightarrow> error + int" where
  "evaluate_expr (ExInt n) = Inr n"
| "evaluate_expr (ExBool b) = Inr (if b then 1 else 0)"
| "evaluate_expr (ExSymInt e) =
     (case py_int_cast (SymInt e) of Inl err \<Rightarrow> Inl UserError | Inr n \<Rightarrow> Inr n)"
| "evaluate_expr (ExSympyInteger n) = Inl AssertionError"
| "evaluate_expr (ExTensor v) = Inl AssertionError"
| "evaluate_expr (ExSize xs) = Inl AssertionError"

text \<open>
  The Python value of the argument \<open>dim\<close> after \<open>guard_if_dyn\<close> (of \<open>utils.py\<close>): a
  symbolic scalar is evaluated, a constant gives its value, anything else stays the
  tracker object it is.
\<close>

datatype dim_value = DimNone | DimInt py_int | DimBool bool | DimOther

fun guard_if_dyn :: "variable option \<Rightarrow> error + dim_value" where
  "guard_if_dyn None = Inr DimNone"
| "guard_if_dyn (Some (SymNodeVariable p s)) =
     (case evaluate_expr s of Inl e \<Rightarrow> Inl e | Inr n \<Rightarrow> Inr (DimInt (PyInt n)))"
| "guard_if_dyn (Some (ConstantVariable CNone)) = Inr DimNone"
| "guard_if_dyn (Some (ConstantVariable (CInt x))) = Inr (DimInt x)"
| "guard_if_dyn (Some (ConstantVariable (CBool b))) = Inr (DimBool b)"
| "guard_if_dyn (Some v) = Inr DimOther"

text \<open>
  Subscripting a tuple with a Python integer: a negative index counts from the end,
  an index outside the tuple raises \<open>IndexError\<close>.
\<close>

definition tuple_getitem :: "'a list \<Rightarrow> int \<Rightarrow> error + 'a" where
  "tuple_getitem xs i =
     (if 0 \<le> i \<and> i < int (length xs) then Inr (xs ! nat i)
      else if i < 0 \<and> - int (length xs) \<le> i then Inr (xs ! nat (int (length xs) + i))
      else Inl IndexError)"

text \<open>\<open>r[dim]\<close> for the value \<open>dim\<close>: a bool indexes as an int.\<close>

fun subscript :: "'a list \<Rightarrow> dim_value \<Rightarrow> error + 'a" where
  "subscript r (DimInt x) =
     (case py_int_cast x of Inl e \<Rightarrow> Inl e | Inr i \<Rightarrow> tuple_getitem r i)"
| "subscript r (DimBool b) = tuple_getitem r (if b then 1 else 0)"
| "subscript r DimNone = Inl TypeError"
| "subscript r DimOther = Inl TypeError"

text \<open>
  \<open>getattr(fake, name)()\<close> and \<open>getattr(fake, name)(dim)\<close> for \<open>name\<close> one of
  \<open>size\<close>, \<open>stride\<close>: the tuple of the tensor, or its entry at \<open>dim\<close> (an integer in
  range, no bool). An example value that is no tensor has no such method.
\<close>

fun fake_size_stride :: "example_value \<Rightarrow> string \<Rightarrow> error + py_int list" where
  "fake_size_stride (ExTensor v) name = Inr (if name = ''size'' then t_size v else t_stride v)"
| "fake_size_stride ev name = Inl AttributeError"

fun fake_size_stride_dim :: "example_value \<Rightarrow> string \<Rightarrow> dim_value \<Rightarrow> error + py_int" where
  "fake_size_stride_dim ev name (DimInt x) =
     (case fake_size_stride ev name of Inl e \<Rightarrow> Inl e | Inr r \<Rightarrow> subscript r (DimInt x))"
| "fake_size_stride_dim ev name d =
     (case fake_size_stride ev name of Inl e \<Rightarrow> Inl e | Inr r \<Rightarrow> Inl TypeError)"

text \<open>\<open>make_const_size_variable\<close> for \<open>size\<close>, \<open>ConstantVariable.create\<close> for \<open>stride\<close>.\<close>

definition RetVariable :: "string \<Rightarrow> py_int list \<Rightarrow> variable" where
  "RetVariable name x =
     (if name = ''size'' then SizeVariable (map (\<lambda>y. ConstantVariable (CInt y)) x)
      else ConstantVariable (CTuple (map CInt x)))"

text \<open>
  \<open>TensorVariable._method_size_stride(name, dim=None)\<close>; \<open>name\<close> is \<open>size\<close> or
  \<open>stride\<close>, and \<open>getattr(self, name)\<close> reads the field of that name.
\<close>

definition method_size_stride ::
  "tensor_variable \<Rightarrow> string \<Rightarrow> variable option \<Rightarrow> tx \<Rightarrow> error + variable option" where
  "method_size_stride self name dim0 t =
     (case guard_if_dyn dim0 of
        Inl e \<Rightarrow> Inl e
      | Inr dim \<Rightarrow>
          (case (if name = ''size'' then size' self else stride self) of
             Some r \<Rightarrow>
               (if dim = DimNone then Inr (Some (RetVariable name r))
                else (case subscript r dim of
                        Inl e \<Rightarrow> Inl e
                      | Inr x \<Rightarrow> Inr (Some (ConstantVariable (CInt x)))))
           | None \<Rightarrow>
               (case node_meta t (proxy self) of
                  None \<Rightarrow> Inr None
                | Some fake \<Rightarrow>
                    (if dim = DimNone then
                       (case fake_size_stride fake name of
                          Inl e \<Rightarrow> Inl e
                        | Inr fake_r \<Rightarrow>
                            (if \<not> has_free_symbols_tuple fake_r then
                               (case map_raise py_int_cast fake_r of
                                  Inl e \<Rightarrow> Inl e
                                | Inr ns \<Rightarrow> Inr (Some (RetVariable name (map PyInt ns))))
                             else Inr None))
                     else
                       (case fake_size_stride_dim fake name dim of
                          Inl e \<Rightarrow> Inl e
                        | Inr fake_r \<Rightarrow>
                            (if \<not> has_free_symbols fake_r then
                               (case py_int_cast fake_r of
                                  Inl e \<Rightarrow> Inl e
                                | Inr n \<Rightarrow> Inr (Some (ConstantVariable (CInt (PyInt n)))))
                             else Inr None))))))"

text \<open>
  \<open>method_size(*args)\<close> and \<open>method_stride(*args)\<close>: at most one positional argument
  fits the signature of \<open>_method_size_stride\<close>; more raise \<open>TypeError\<close>.
\<close>

fun size_stride_args ::
  "tensor_variable \<Rightarrow> string \<Rightarrow> variable list \<Rightarrow> tx \<Rightarrow> error + variable option" where
  "size_stride_args self name [] t = method_size_stride self name None t"
| "size_stride_args self name [d] t = method_size_stride self name (Some d) t"
| "size_stride_args self name ds t = Inl TypeError"

definition method_size :: "tensor_variable \<Rightarrow> variable list \<Rightarrow> tx \<Rightarrow> variable option result" where
  "method_size self args t = (size_stride_args self ''size'' args t, t)"

definition method_stride :: "tensor_variable \<Rightarrow> variable list \<Rightarrow> tx \<Rightarrow> variable option result" where
  "method_stride self args t = (size_stride_args self ''stride'' args t, t)"

subsection \<open>Handlers answered from the metadata\<close>

definition method_dim :: "tensor_variable \<Rightarrow> error + variable option" where
  "method_dim self =
     (case ndim self of
        Some n \<Rightarrow> Inr (Some (ConstantVariable (CInt (PyInt n))))
      | None \<Rightarrow> Inr None)"

definition method_is_floating_point :: "tensor_variable \<Rightarrow> error + variable option" where
  "method_is_floating_point self =
     (case dtype self of
        Some d \<Rightarrow> Inr (Some (ConstantVariable (CBool (is_floating_point d))))
      | None \<Rightarrow> Inr None)"

definition method_get_device :: "tensor_variable \<Rightarrow> error + variable option" where
  "method_get_device self =
     (case device self of
        Some d \<Rightarrow>
          Inr (Some (ConstantVariable
                 (if device_type d \<noteq> ''cpu''
                  then (case device_index d of None \<Rightarrow> CNone | Some i \<Rightarrow> CInt (PyInt i))
                  else CInt (PyInt (- 1)))))
      | None \<Rightarrow> Inr None)"

text \<open>\<open>self.dtype.itemsize\<close>: \<open>None\<close> has no attribute \<open>itemsize\<close>.\<close>

definition method_element_size :: "tensor_variable \<Rightarrow> error + variable option" where
  "method_element_size self =
     (case dtype self of
        None \<Rightarrow> Inl AttributeError
      | Some d \<Rightarrow> Inr (Some (ConstantVariable (CInt (PyInt (itemsize d))))))"

subsection \<open>Sequence unpacking\<close>

text \<open>\<open>self.ndim > 0\<close>: Python 3 does not order \<open>None\<close> and an int.\<close>

definition has_unpack_var_sequence :: "tensor_variable \<Rightarrow> error + bool" where
  "has_unpack_var_sequence self =
     (case ndim self of None \<Rightarrow> Inl TypeError | Some n \<Rightarrow> Inr (n > 0))"

text \<open>\<open>range(length)\<close>.\<close>

definition py_range :: "int \<Rightarrow> int list" where
  "py_range n = map int [0..<nat n]"

text \<open>
  The comprehension of \<open>unpack_var_sequence\<close>: for each index, the subscript
  \<open>self.as_proxy()[i]\<close> records a node, which is wrapped in the class of \<open>self\<close>.
\<close>

fun unpack_items :: "tensor_variable \<Rightarrow> int list \<Rightarrow> tx \<Rightarrow> variable list result" where
  "unpack_items self [] t = (Inr [], t)"
| "unpack_items self (i # is) t =
     (let (q, t1) = create_proxy ''call_function'' ''operator.getitem''
                      [ANode (proxy self), AConst (CInt (PyInt i))] [] t
      in case wrap_fx_proxy_cls (tv_class self) q None t1 of
           (Inl e, t2) \<Rightarrow> (Inl e, t2)
         | (Inr v, t2) \<Rightarrow>
             (case unpack_items self is t2 of
                (Inl e, t3) \<Rightarrow> (Inl e, t3)
              | (Inr vs, t3) \<Rightarrow> (Inr (v # vs), t3)))"

text \<open>
  The length that \<open>unpack_var_sequence\<close> reads off the answer of \<open>size(0)\<close>: the
  answer has to be a \<open>SymNodeVariable\<close> or a \<open>ConstantVariable\<close>.
\<close>

fun dyn_length_value :: "variable \<Rightarrow> error + int" where
  "dyn_length_value (SymNodeVariable p s) = evaluate_expr s"
| "dyn_length_value (ConstantVariable (CInt x)) = py_int_cast x"
| "dyn_length_value (ConstantVariable (CBool b)) = Inr (if b then 1 else 0)"
| "dyn_length_value (ConstantVariable c) = Inl TypeError"
| "dyn_length_value v = Inl AssertionError"

definition unpack_var_sequence ::
  "tensor_variable \<Rightarrow> int list option \<Rightarrow> tx \<Rightarrow> variable list result" where
  "unpack_var_sequence self idxes0 t =
     (case (case idxes0 of
              Some idxes \<Rightarrow> (Inr idxes, t)
            | None \<Rightarrow>
                (case size' self of
                   Some (x # xs) \<Rightarrow>
                     (case py_int_cast x of
                        Inl e \<Rightarrow> (Inl e, t)
                      | Inr n \<Rightarrow> (Inr (py_range n), t))
                 | _ \<Rightarrow>
                     (case call_method self ''size'' [ConstantVariable (CInt (PyInt 0))] []
                             (Some (method_size self [ConstantVariable (CInt (PyInt 0))])) t of
                        (Inl e, t1) \<Rightarrow> (Inl e, t1)
                      | (Inr dyn_length, t1) \<Rightarrow>
                          (case dyn_length_value dyn_length of
                             Inl e \<Rightarrow> (Inl e, t1)
                           | Inr n \<Rightarrow> (Inr (py_range n), t1))))) of
        (Inl e, t1) \<Rightarrow> (Inl e, t1)
      | (Inr idxes, t1) \<Rightarrow> unpack_items self idxes t1)"

subsection \<open>\<open>__setitem__\<close>\<close>




subsection \<open>\<open>as_subclass\<close>\<close>


subsection \<open>\<open>numpy\<close>\<close>

text \<open>The truth value of a Python constant.\<close>

fun const_truth :: "const \<Rightarrow> error + bool" where
  "const_truth CNone = Inr False"
| "const_truth (CBool b) = Inr b"
| "const_truth (CInt x) = (case py_int_cast x of Inl e \<Rightarrow> Inl e | Inr n \<Rightarrow> Inr (n \<noteq> 0))"
| "const_truth (CStr s) = Inr (s \<noteq> [])"
| "const_truth (CTuple cs) = Inr (cs \<noteq> [])"
| "const_truth (CDtype d) = Inr True"
| "const_truth (CDevice d) = Inr True"
| "const_truth (CLayout l) = Inr True"

text \<open>
  \<open>method_numpy(self, *, force=False)\<close>. The keyword \<open>force\<close> is absent (\<open>None\<close>,
  the default \<open>False\<close>) or a \<open>ConstantVariable\<close>, given by its constant.
\<close>

definition method_numpy :: "tensor_variable \<Rightarrow> const option \<Rightarrow> tx \<Rightarrow> variable option result" where
  "method_numpy self force t =
     (if \<not> trace_numpy t then
        (Inl (unimplemented ''Tensor.numpy(). config.trace_numpy is False''), t)
      else if \<not> np_available t then
        (Inl (unimplemented ''Tensor.numpy(). NumPy is not available''), t)
      else if layout self \<noteq> Some torch_strided then (Inl TypeError, t)
      else
        (case (case force of None \<Rightarrow> Inr False | Some c \<Rightarrow> const_truth c) of
           Inl e \<Rightarrow> (Inl e, t)
         | Inr True \<Rightarrow>
             (case call_method self ''detach'' [] [] None t of
                (Inl e, t1) \<Rightarrow> (Inl e, t1)
              | (Inr tv, t1) \<Rightarrow>
                  (case as_proxy tv of
                     Inl e \<Rightarrow> (Inl e, t1)
                   | Inr a \<Rightarrow>
                       (let (p, t2) = create_proxy ''call_method'' ''cpu'' [a] [] t1
                        in case NumpyNdarrayVariable_create p t2 of
                             (Inl e, t3) \<Rightarrow> (Inl e, t3)
                           | (Inr v, t3) \<Rightarrow> (Inr (Some v), t3))))
         | Inr False \<Rightarrow>
             (case proxy_args_kwargs [TensorVariable self, TensorVariable self] [] of
                Inl e \<Rightarrow> (Inl e, t)
              | Inr (as, kw) \<Rightarrow>
                  (let (p, t1) = create_proxy ''call_method'' ''view_as'' as kw t
                   in case NumpyNdarrayVariable_create p t1 of
                        (Inl e, t2) \<Rightarrow> (Inl e, t2)
                      | (Inr v, t2) \<Rightarrow> (Inr (Some v), t2)))))"

section \<open>\<open>TensorVariable\<close>: attribute resolution\<close>

definition dynamic_getattr :: "tensor_variable \<Rightarrow> string \<Rightarrow> tx \<Rightarrow> variable result" where
  "dynamic_getattr self name t =
     (case source self of
        None \<Rightarrow> (Inl NotImplementedError, t)
      | Some src \<Rightarrow>
          (case scope t src of
             None \<Rightarrow> (Inl NotImplementedError, t)
           | Some rv \<Rightarrow>
               (if is_none rv then (Inl NotImplementedError, t)
                else if has_getattribute rv then (Inl NotImplementedError, t)
                else if has_custom_getattr rv then (Inl NotImplementedError, t)
                else
                  (case map_of (attrs rv) name of
                     None \<Rightarrow> (Inl AttributeError, t)
                   | Some CallableAttr \<Rightarrow> (Inl NotImplementedError, t)
                   | Some DataAttr \<Rightarrow>
                       (Inr (BuilderVariable (AttrSource src name)),
                        install_guard (HASATTR (AttrSource src name)) t)))))"

text \<open>The chain of \<open>if\<close>/\<open>elif\<close> of \<open>var_getattr\<close> that computes \<open>result\<close>.\<close>

definition getattr_result :: "tensor_variable \<Rightarrow> string \<Rightarrow> tx \<Rightarrow> variable option result" where
  "getattr_result self name t =
     (if name = ''ndim'' \<and> ndim self \<noteq> None then
        (Inr (map_option (\<lambda>n. ConstantVariable (CInt (PyInt n))) (ndim self)), t)
      else if name = ''dtype'' \<and> dtype self \<noteq> None then
        (Inr (map_option (\<lambda>d. ConstantVariable (CDtype d)) (dtype self)), t)
      else if name = ''device'' \<and> device self \<noteq> None then
        (Inr (map_option (\<lambda>d. ConstantVariable (CDevice d)) (device self)), t)
      else if name = ''layout'' \<and> layout self \<noteq> None then
        (Inr (map_option (\<lambda>l. ConstantVariable (CLayout l)) (layout self)), t)
      else if name = ''is_cuda'' \<and> device self \<noteq> None then
        (Inr (map_option (\<lambda>d. ConstantVariable (CBool (device_type d = ''cuda''))) (device self)), t)
      else if name = ''shape'' \<and> size' self \<noteq> None then
        (Inr (map_option (\<lambda>sz. SizeVariable (map (\<lambda>x. ConstantVariable (CInt x)) sz))
                (size' self)), t)
      else if name = ''requires_grad'' \<and> requires_grad self \<noteq> None then
        (Inr (map_option (\<lambda>b. ConstantVariable (CBool b)) (requires_grad self)), t)
      else if name = ''is_quantized'' \<and> is_quantized self \<noteq> None then
        (Inr (map_option (\<lambda>b. ConstantVariable (CBool b)) (is_quantized self)), t)
      else if name = ''is_sparse'' \<and> is_sparse self \<noteq> None then
        (Inr (map_option (\<lambda>b. ConstantVariable (CBool b)) (is_sparse self)), t)
      else if name = ''shape'' \<and> size' self = None then
        (case call_method self ''size'' [] [] (Some (method_size self [])) t of
           (Inl e, t') \<Rightarrow> (Inl e, t')
         | (Inr v, t') \<Rightarrow> (Inr (Some v), t'))
      else if name = ''ndim'' \<and> ndim self = None then
        (case call_method self ''dim'' [] [] (Some (\<lambda>t'. (method_dim self, t'))) t of
           (Inl e, t') \<Rightarrow> (Inl e, t')
         | (Inr v, t') \<Rightarrow> (Inr (Some v), t'))
      else if name = ''data'' then
        (case call_method self ''detach'' [] [] None t of
           (Inl e, t') \<Rightarrow> (Inl e, t')
         | (Inr v, t') \<Rightarrow> (Inr (Some v), t'))
      else (Inr None, t))"

text \<open>
  \<open>try_generic_attr_handling\<close>: a getset descriptor of \<open>torch.Tensor\<close> is read in the
  graph; \<open>create_getattr_proxy\<close> records the attribute read.
\<close>

definition try_generic_attr_handling ::
  "tensor_variable \<Rightarrow> string \<Rightarrow> tx \<Rightarrow> variable option result" where
  "try_generic_attr_handling self name t =
     (if name \<notin> set (getset_descriptors t) then (Inr None, t)
      else
        (let (p, t1) = create_proxy ''call_function'' ''getattr''
                         [ANode (proxy self), AConst (CStr name)] [] t
         in case wrap_fx_proxy p (map_option (\<lambda>src. AttrSource src name) (source self)) t1 of
              (Inl e, t2) \<Rightarrow> (Inl e, t2)
            | (Inr v, t2) \<Rightarrow> (Inr (Some v), t2)))"

text \<open>
  \<open>TensorVariable.var_getattr\<close>. The second component of the answer is the value of
  the assignment \<open>result.source = AttrSource(self.source, name)\<close>, \<open>None\<close> when the
  assignment is not made.
\<close>

definition var_getattr ::
  "tensor_variable \<Rightarrow> string \<Rightarrow> tx \<Rightarrow> (variable \<times> source option) result" where
  "var_getattr self name t =
     (if strict_checks_enabled t \<and> name \<in> set (strict_mode_banned_ops t) then
        (Inl (unimplemented (''Illegal getattr invocation '' @ name @ '' in strict mode'')), t)
      else
        (case getattr_result self name t of
           (Inl e, t1) \<Rightarrow> (Inl e, t1)
         | (Inr result, t1) \<Rightarrow>
             (if name = ''__class__'' then
                (Inr (UserDefinedClassVariable (class_type self), None), t1)
              else
                (let guarded = (result \<noteq> None \<and> source self \<noteq> None);
                     t2 = (if guarded then install_guard (TYPE_MATCH (source self)) t1 else t1);
                     rsrc = (if guarded then map_option (\<lambda>src. AttrSource src name) (source self)
                             else None)
                 in case (if name \<in> set (inplace_view_ops t2) then source self else None) of
                      Some src \<Rightarrow>
                        (Inr (DelayGraphBreakVariable (AttrSource src name), None), t2)
                    | None \<Rightarrow>
                        (case result of
                           Some r \<Rightarrow> (Inr (r, rsrc), t2)
                         | None \<Rightarrow>
                             (case try_generic_attr_handling self name t2 of
                                (Inl e, t3) \<Rightarrow> (Inl e, t3)
                              | (Inr (Some r), t3) \<Rightarrow> (Inr (r, None), t3)
                              | (Inr None, t3) \<Rightarrow>
                                  (case dynamic_getattr self name t3 of
                                     (Inl e, t4) \<Rightarrow> (Inl e, t4)
                                   | (Inr r, t4) \<Rightarrow> (Inr (r, None), t4))))))))"

section \<open>The invariant of the data model, and sample values\<close>



text \<open>An empty trace with every switch off, a tensor of static shape, a bare variable.\<close>

definition tx0 :: tx where
  "tx0 = \<lparr>strict_checks_enabled = False, strict_mode_banned_ops = [],
          trace_numpy = False, np_available = False, grad_enabled = False,
          nodes = [], node_meta = (\<lambda>n. None), guards = [],
          fake_op = (\<lambda>kind target as. None),
          inplace_view_ops = [], getset_descriptors = [], scope = (\<lambda>src. None),
          breakpoints = 0\<rparr>"

definition fake0 :: tensor_value where
  "fake0 = \<lparr>t_dtype = torch_float32, t_device = Device ''cpu'' None, t_layout = torch_strided,
            t_size = [PyInt 2, SymInt (Add (Num 1) (Num 2))], t_stride = [PyInt 3, PyInt 1],
            t_requires_grad = False, t_is_quantized = False, t_is_sparse = False,
            t_class = ''torch.Tensor'', t_is_batched = False,
            t_contiguous = [contiguous_format, preserve_format]\<rparr>"

definition tv0 :: tensor_variable where
  "tv0 = \<lparr>tv_class = TensorVariableT, proxy = 0, dtype = None, device = None, layout = None,
          ndim = None, size' = None, stride = None, requires_grad = None,
          is_quantized = None, is_contiguous = None, is_sparse = None, class_type = None,
          source = None\<rparr>"

text \<open>
  A trace with one input node that holds the static tensor, and an oracle that answers
  every operation with that tensor; an index with a boolean mask inside a tuple; a
  value that requires gradients.
\<close>

definition tx1 :: tx where
  "tx1 = tx0\<lparr>nodes := [Node ''placeholder'' ''x'' [] []],
              node_meta := (\<lambda>n. if n = 0 then Some (ExTensor fake0) else None),
              fake_op := (\<lambda>kind target as. Some (ExTensor fake0))\<rparr>"



text \<open>
  A tensor whose first extent is a shape symbol and whose second is the symbol-free
  product 2 * 3, and the trace whose input node holds it.
\<close>

definition fake_dyn :: tensor_value where
  "fake_dyn = fake0\<lparr>t_size := [SymInt (Sym 0), SymInt (Mul (Num 2) (Num 3))]\<rparr>"

definition tx_dyn :: tx where
  "tx_dyn = tx1\<lparr>node_meta := (\<lambda>n. if n = 0 then Some (ExTensor fake_dyn) else None)\<rparr>"

section \<open>Notions the properties are stated with\<close>

text \<open>
  A well-formed trace records example values only for nodes that exist: a node that
  is still to be created has none.
\<close>

definition fresh_meta :: "tx \<Rightarrow> bool" where
  "fresh_meta t = (\<forall>q. length (nodes t) \<le> q \<longrightarrow> node_meta t q = None)"

text \<open>The node that the subscript \<open>proxy[i]\<close> records.\<close>

definition getitem_node :: "nat \<Rightarrow> int \<Rightarrow> node" where
  "getitem_node p i =
     Node ''call_function'' ''operator.getitem'' [ANode p, AConst (CInt (PyInt i))] []"

text \<open>
  The content of a variable: what it holds apart from the identity of its graph
  nodes, which is forgotten. The extents of a shape are the integers, plain or
  symbolic, that its items carry. Both are lifted to the answers of \<open>var_getattr\<close>.
\<close>

fun content :: "variable \<Rightarrow> variable" where
  "content (TensorVariable tv) = TensorVariable (tv\<lparr>proxy := 0\<rparr>)"
| "content (SymNodeVariable p s) = SymNodeVariable 0 s"
| "content (SizeVariable vs) = SizeVariable (map content vs)"
| "content (TupleVariable vs) = TupleVariable (map content vs)"
| "content (TensorWithTFOverrideVariable tv c f) =
     TensorWithTFOverrideVariable (tv\<lparr>proxy := 0\<rparr>) c (content f)"
| "content (ConstantVariable c) = ConstantVariable c"
| "content (TensorSubclassVariable c src) = TensorSubclassVariable c src"
| "content (UserDefinedClassVariable c) = UserDefinedClassVariable c"
| "content (DelayGraphBreakVariable src) = DelayGraphBreakVariable src"
| "content (BuilderVariable src) = BuilderVariable src"
| "content (OtherVariable s) = OtherVariable s"

fun extent :: "variable \<Rightarrow> py_int option" where
  "extent (ConstantVariable (CInt x)) = Some x"
| "extent (SymNodeVariable p (ExSymInt e)) = Some (SymInt e)"
| "extent v = None"

fun dimension_extents :: "variable \<Rightarrow> py_int option list" where
  "dimension_extents (SizeVariable vs) = map extent vs"
| "dimension_extents v = []"

definition result_content ::
  "error + variable \<times> source option \<Rightarrow> error + variable \<times> source option" where
  "result_content r = (case r of Inl e \<Rightarrow> Inl e | Inr (v, src) \<Rightarrow> Inr (content v, src))"

definition result_extents :: "error + variable \<times> source option \<Rightarrow> py_int option list" where
  "result_extents r = (case r of Inl e \<Rightarrow> [] | Inr (v, src) \<Rightarrow> dimension_extents v)"

text \<open>
  A later state of the same trace: the switches, the oracle and the table of in-place
  view operations are the same, nodes have only been added, the example values of the
  earlier nodes are the same, and the state is well-formed.
\<close>

definition trace_extends :: "tx \<Rightarrow> tx \<Rightarrow> bool" where
  "trace_extends t t' =
     (strict_checks_enabled t' = strict_checks_enabled t
      \<and> strict_mode_banned_ops t' = strict_mode_banned_ops t
      \<and> fake_op t' = fake_op t
      \<and> inplace_view_ops t' = inplace_view_ops t
      \<and> length (nodes t) \<le> length (nodes t')
      \<and> (\<forall>q < length (nodes t). node_meta t' q = node_meta t q)
      \<and> fresh_meta t')"

text \<open>
  A variable of known length 2; a trace whose oracle answers \<open>size\<close> on a tensor with
  the sizes of the tensor.
\<close>

definition tv_len2 :: tensor_variable where
  "tv_len2 = tv0\<lparr>tv_class := FakeItemVariableT, size' := Some [PyInt 2], ndim := Some 1\<rparr>"

definition tx_shape :: tx where
  "tx_shape = tx_dyn\<lparr>fake_op := (\<lambda>kind target as.
      case as of
        [FNode (Some (ExTensor v))] \<Rightarrow> if target = ''size'' then Some (ExSize (t_size v)) else None
      | _ \<Rightarrow> None)\<rparr>"

section \<open>Properties\<close>

subsection \<open>Casts of symbol-free values never fail\<close>

lemma expr_value_closed: "free_symbols e = [] \<Longrightarrow> \<exists>n. expr_value e = Some n"
  by (induction e) auto

lemma py_int_cast_closed: "\<not> has_free_symbols x \<Longrightarrow> \<exists>n. py_int_cast x = Inr n"
  by (cases x) (auto dest: expr_value_closed)


lemma specialize_sizes:
  "\<not> has_free_symbols_tuple xs \<Longrightarrow>
   \<exists>sz. map_raise (\<lambda>s. if is_symbolic s
                         then (case py_int_cast s of Inl e \<Rightarrow> Inl e | Inr n \<Rightarrow> Inr (PyInt n))
                         else Inr s) xs = Inr sz
        \<and> list_all (\<lambda>s. \<not> is_symbolic s) sz
        \<and> map py_int_cast sz = map py_int_cast xs"
  unfolding has_free_symbols_tuple_def
proof (induction xs)
  case Nil
  then show ?case by simp
next
  case (Cons x xs)
  then have x: "\<not> has_free_symbols x" and xs: "\<not> list_ex has_free_symbols xs" by auto
  from x obtain n where n: "py_int_cast x = Inr n" using py_int_cast_closed by blast
  from Cons.IH [OF xs] obtain sz where
    sz: "map_raise (\<lambda>s. if is_symbolic s
                         then (case py_int_cast s of Inl e \<Rightarrow> Inl e | Inr n \<Rightarrow> Inr (PyInt n))
                         else Inr s) xs = Inr sz"
        "list_all (\<lambda>s. \<not> is_symbolic s) sz" "map py_int_cast sz = map py_int_cast xs"
    by blast
  show ?case
  proof (cases x)
    case (PyInt m)
    with sz show ?thesis by simp
  next
    case (SymInt e)
    with sz n show ?thesis by simp
  qed
qed


subsection \<open>Metadata extraction\<close>



subsection \<open>Sequence unpacking\<close>

text \<open>
  Claim C5. \<open>has_unpack_var_sequence\<close> answers whether the rank is positive when the
  rank is known; for a variable whose \<open>ndim\<close> is \<open>None\<close> the comparison
  \<open>self.ndim > 0\<close> raises \<open>TypeError\<close>, where the claim expects the answer false.
\<close>

theorem has_unpack_var_sequence_unknown_rank:
  "has_unpack_var_sequence (self\<lparr>ndim := None\<rparr>) = Inl TypeError
   \<and> has_unpack_var_sequence (self\<lparr>ndim := Some n\<rparr>) = Inr (0 < n)"
  by (simp add: has_unpack_var_sequence_def)


subsection \<open>The handlers \<open>size\<close> and \<open>stride\<close>\<close>







subsection \<open>Symbolic scalars\<close>




subsection \<open>Index assignment\<close>



subsection \<open>Subclass rewiring\<close>



subsection \<open>Element size\<close>

text \<open>
  Claim C9. \<open>element_size\<close> returns the byte width of the dtype as a constant when the
  dtype is present. When the dtype is \<open>None\<close> it raises \<open>AttributeError\<close>, which the
  dispatcher passes on unchanged and which is not the unsupported-construct signal;
  the handlers \<open>is_floating_point\<close>, \<open>dim\<close> and \<open>get_device\<close> decline instead when
  their metadata is absent.
\<close>

theorem element_size_unguarded:
  "method_element_size (self\<lparr>dtype := Some d\<rparr>)
     = Inr (Some (ConstantVariable (CInt (PyInt (itemsize d)))))
   \<and> method_element_size (self\<lparr>dtype := None\<rparr>) = Inl AttributeError
   \<and> TensorVariable_call_method (self\<lparr>dtype := None\<rparr>) ''element_size'' [] []
        (Some (\<lambda>t'. (method_element_size (self\<lparr>dtype := None\<rparr>), t')))
        (t\<lparr>strict_checks_enabled := False\<rparr>)
     = (Inl AttributeError, t\<lparr>strict_checks_enabled := False\<rparr>)
   \<and> AttributeError \<noteq> unimplemented msg
   \<and> method_is_floating_point (self\<lparr>dtype := None\<rparr>) = Inr None
   \<and> method_dim (self\<lparr>ndim := None\<rparr>) = Inr None
   \<and> method_get_device (self\<lparr>device := None\<rparr>) = Inr None"
  by (simp add: method_element_size_def TensorVariable_call_method_def unimplemented_def
      method_is_floating_point_def method_dim_def method_get_device_def)

subsection \<open>Array interop\<close>

text \<open>
  Claim C10. With \<open>trace_numpy\<close> on and an array backend available, the handler
  \<open>numpy\<close>, with or without \<open>force\<close>, raises \<open>TypeError\<close> for a variable whose layout
  is not \<open>torch.strided\<close>; \<open>TypeError\<close> is not the unsupported-construct signal, and
  the trace state is the one before the call: no node has been recorded.
\<close>

theorem numpy_non_strided_layout:
  assumes "layout self \<noteq> Some torch_strided"
  shows "method_numpy self force (t\<lparr>trace_numpy := True, np_available := True\<rparr>)
           = (Inl TypeError, t\<lparr>trace_numpy := True, np_available := True\<rparr>)
         \<and> TypeError \<noteq> unimplemented msg"
  using assms by (simp add: method_numpy_def unimplemented_def)

theorem numpy_non_strided_layout_witness:
  "layout (tv0\<lparr>layout := Some torch_sparse_coo\<rparr>) \<noteq> Some torch_strided
   \<and> fst (method_numpy (tv0\<lparr>layout := Some torch_sparse_coo\<rparr>) (Some (CBool True))
            (tx1\<lparr>trace_numpy := True, np_available := True\<rparr>)) = Inl TypeError
   \<and> nodes (snd (method_numpy (tv0\<lparr>layout := Some torch_sparse_coo\<rparr>) (Some (CBool True))
            (tx1\<lparr>trace_numpy := True, np_available := True\<rparr>))) = nodes tx1"
proof -
  have h: "layout (tv0\<lparr>layout := Some torch_sparse_coo\<rparr>) \<noteq> Some torch_strided" by simp
  show ?thesis
    using h numpy_non_strided_layout [OF h, of "Some (CBool True)" tx1] by simp
qed

text \<open>
  The dispatcher catches the \<open>TypeError\<close> of a handler: a call of \<open>numpy\<close> that goes
  through \<open>call_method\<close> ends in the unsupported-construct signal.
\<close>

lemma numpy_non_strided_layout_dispatch:
  assumes "layout self \<noteq> Some torch_strided"
  shows "TensorVariable_call_method self ''numpy'' [] [] (Some (method_numpy self force))
           (t\<lparr>trace_numpy := True, np_available := True, strict_checks_enabled := False\<rparr>)
         = (Inl (unimplemented ''unhandled args for numpy''),
            t\<lparr>trace_numpy := True, np_available := True, strict_checks_enabled := False\<rparr>)"
  using assms by (simp add: TensorVariable_call_method_def method_numpy_def)

subsection \<open>Unpacking a variable of known length\<close>

lemma specialize_total: "\<exists>pr. specialize v = Inr pr"
proof (cases "has_free_symbols_tensor v")
  case True
  then show ?thesis by (simp add: specialize_def)
next
  case False
  then have "\<not> has_free_symbols_tuple (t_size v)" by (simp add: has_free_symbols_tensor_def)
  from specialize_sizes [OF this] False show ?thesis
    by (auto simp add: specialize_def)
qed

lemma wrap_fresh_tensor:
  assumes "node_meta t q = None" and "q < length (nodes t)"
      and "fake_op t (node_op (nodes t ! q)) (node_target (nodes t ! q))
             (map (fake_of_arg t) (node_args (nodes t ! q))) = Some (ExTensor v)"
  shows "\<exists>pr. specialize v = Inr pr
            \<and> wrap_fx_proxy_cls c q src t
                = (Inr (TensorVariable (new_tensor_variable c q pr src)),
                   t\<lparr>node_meta := (node_meta t)(q \<mapsto> ExTensor v)\<rparr>)"
proof -
  from specialize_total obtain pr where "specialize v = Inr pr" by blast
  with assms show ?thesis
    by (simp add: wrap_fx_proxy_cls_def get_fake_value_def)
qed

lemma unpack_items_tensors:
  assumes "fresh_meta t" and "proxy self < length (nodes t)"
      and "\<forall>i \<in> set idxes. fake_op t ''call_function'' ''operator.getitem''
              [FNode (node_meta t (proxy self)), FConst (CInt (PyInt i))] = Some (ExTensor (elem i))"
  shows "\<exists>vs t'. unpack_items self idxes t = (Inr vs, t')
           \<and> length vs = length idxes
           \<and> nodes t' = nodes t @ map (getitem_node (proxy self)) idxes
           \<and> (\<forall>k < length idxes. \<exists>tv. vs ! k = TensorVariable tv
                 \<and> tv_class tv = tv_class self \<and> proxy tv = length (nodes t) + k)"
  using assms
proof (induction idxes arbitrary: t)
  case Nil
  then show ?case by simp
next
  case (Cons i idxes)
  let ?q = "length (nodes t)"
  let ?t1 = "t\<lparr>nodes := nodes t @ [getitem_node (proxy self) i]\<rparr>"
  let ?t2 = "?t1\<lparr>node_meta := (node_meta ?t1)(?q \<mapsto> ExTensor (elem i))\<rparr>"
  have m: "node_meta ?t1 ?q = None" using Cons.prems(1) by (simp add: fresh_meta_def)
  have o: "fake_op ?t1 (node_op (nodes ?t1 ! ?q)) (node_target (nodes ?t1 ! ?q))
             (map (fake_of_arg ?t1) (node_args (nodes ?t1 ! ?q))) = Some (ExTensor (elem i))"
    using Cons.prems(3) by (simp add: getitem_node_def)
  from wrap_fresh_tensor [OF m _ o, of "tv_class self" None] obtain pr where
    w: "wrap_fx_proxy_cls (tv_class self) ?q None ?t1
          = (Inr (TensorVariable (new_tensor_variable (tv_class self) ?q pr None)), ?t2)"
    by auto
  have f2: "fresh_meta ?t2" using Cons.prems(1) by (simp add: fresh_meta_def)
  have p2: "proxy self < length (nodes ?t2)" using Cons.prems(2) by simp
  have o2: "\<forall>j \<in> set idxes. fake_op ?t2 ''call_function'' ''operator.getitem''
              [FNode (node_meta ?t2 (proxy self)), FConst (CInt (PyInt j))] = Some (ExTensor (elem j))"
    using Cons.prems(2,3) by simp
  from Cons.IH [OF f2 p2 o2] obtain vs t' where
    r: "unpack_items self idxes ?t2 = (Inr vs, t')" "length vs = length idxes"
       "nodes t' = nodes ?t2 @ map (getitem_node (proxy self)) idxes"
       "\<forall>k < length idxes. \<exists>tv. vs ! k = TensorVariable tv
                 \<and> tv_class tv = tv_class self \<and> proxy tv = length (nodes ?t2) + k"
    by blast
  have u: "unpack_items self (i # idxes) t
             = (Inr (TensorVariable (new_tensor_variable (tv_class self) ?q pr None) # vs), t')"
    using w r(1) by (simp add: create_proxy_def getitem_node_def)
  have k: "\<exists>tv. (TensorVariable (new_tensor_variable (tv_class self) ?q pr None) # vs) ! k
                  = TensorVariable tv
                \<and> tv_class tv = tv_class self \<and> proxy tv = ?q + k"
    if "k < length (i # idxes)" for k
  proof (cases k)
    case 0
    then show ?thesis by (simp add: new_tensor_variable_def)
  next
    case (Suc k')
    with that r(4) show ?thesis by simp
  qed
  from u r(2,3) k show ?case by simp
qed

text \<open>
  Claim C6. Let the size of the variable be present with leading extent \<open>n\<close>, in a
  well-formed trace that holds the node of the variable, and let the oracle answer
  each subscript of the variable with a tensor. Then unpacking without indices
  succeeds with exactly \<open>n\<close> variables; the variable at index \<open>i\<close> is a tensor
  variable of the class of the parent, and its node is the fresh subscript node
  \<open>operator.getitem(self, i)\<close>.
\<close>

theorem unpack_known_length:
  assumes "size' self = Some (x # rest)" and "py_int_cast x = Inr n"
      and "fresh_meta t" and "proxy self < length (nodes t)"
      and "\<forall>i < nat n. fake_op t ''call_function'' ''operator.getitem''
              [FNode (node_meta t (proxy self)), FConst (CInt (PyInt (int i)))]
            = Some (ExTensor (elem i))"
  shows "\<exists>vs t'. unpack_var_sequence self None t = (Inr vs, t')
           \<and> length vs = nat n
           \<and> (\<forall>i < nat n. \<exists>tv. vs ! i = TensorVariable tv
                 \<and> tv_class tv = tv_class self
                 \<and> proxy tv = length (nodes t) + i
                 \<and> nodes t' ! proxy tv = getitem_node (proxy self) (int i))"
proof -
  have o: "\<forall>j \<in> set (py_range n). fake_op t ''call_function'' ''operator.getitem''
              [FNode (node_meta t (proxy self)), FConst (CInt (PyInt j))]
            = Some (ExTensor ((elem \<circ> nat) j))"
    using assms(5) by (auto simp add: py_range_def)
  from unpack_items_tensors [OF assms(3,4) o] obtain vs t' where
    r: "unpack_items self (py_range n) t = (Inr vs, t')" "length vs = length (py_range n)"
       "nodes t' = nodes t @ map (getitem_node (proxy self)) (py_range n)"
       "\<forall>k < length (py_range n). \<exists>tv. vs ! k = TensorVariable tv
                 \<and> tv_class tv = tv_class self \<and> proxy tv = length (nodes t) + k"
    by blast
  have u: "unpack_var_sequence self None t = (Inr vs, t')"
    using assms(1,2) r(1) by (simp add: unpack_var_sequence_def)
  have l: "length (py_range n) = nat n" by (simp add: py_range_def)
  have "\<exists>tv. vs ! i = TensorVariable tv \<and> tv_class tv = tv_class self
              \<and> proxy tv = length (nodes t) + i
              \<and> nodes t' ! proxy tv = getitem_node (proxy self) (int i)" if "i < nat n" for i
  proof -
    from r(4) that l obtain tv where
      tv: "vs ! i = TensorVariable tv" "tv_class tv = tv_class self"
          "proxy tv = length (nodes t) + i"
      by auto
    have "nodes t' ! (length (nodes t) + i) = getitem_node (proxy self) (int i)"
      using that by (simp add: r(3) py_range_def)
    with tv show ?thesis by simp
  qed
  with u r(2) l show ?thesis by simp
qed

theorem unpack_known_length_witness:
  "\<exists>vs t'. unpack_var_sequence tv_len2 None tx1 = (Inr vs, t')
     \<and> length vs = 2
     \<and> (\<exists>tv. vs ! 0 = TensorVariable tv \<and> tv_class tv = FakeItemVariableT \<and> proxy tv = 1
             \<and> nodes t' ! 1 = getitem_node 0 0)
     \<and> (\<exists>tv. vs ! 1 = TensorVariable tv \<and> tv_class tv = FakeItemVariableT \<and> proxy tv = 2
             \<and> nodes t' ! 2 = getitem_node 0 1)"
proof -
  have a: "size' tv_len2 = Some (PyInt 2 # [])" "py_int_cast (PyInt 2) = Inr 2"
    by (simp_all add: tv_len2_def tv0_def)
  have b: "fresh_meta tx1" "proxy tv_len2 < length (nodes tx1)"
    by (simp_all add: fresh_meta_def tx1_def tx0_def tv_len2_def tv0_def)
  have c: "\<forall>i < nat 2. fake_op tx1 ''call_function'' ''operator.getitem''
              [FNode (node_meta tx1 (proxy tv_len2)), FConst (CInt (PyInt (int i)))]
            = Some (ExTensor ((\<lambda>i. fake0) i))"
    by (simp add: tx1_def tx0_def)
  from unpack_known_length [OF a b c] obtain vs t' where
    r: "unpack_var_sequence tv_len2 None tx1 = (Inr vs, t')" "length vs = nat 2"
       "\<forall>i < nat 2. \<exists>tv. vs ! i = TensorVariable tv
                 \<and> tv_class tv = tv_class tv_len2
                 \<and> proxy tv = length (nodes tx1) + i
                 \<and> nodes t' ! proxy tv = getitem_node (proxy tv_len2) (int i)"
    by blast
  have d: "tv_class tv_len2 = FakeItemVariableT" "length (nodes tx1) = 1" "proxy tv_len2 = 0"
    by (simp_all add: tv_len2_def tv0_def tx1_def tx0_def)
  from r(3) have "\<exists>tv. vs ! 0 = TensorVariable tv \<and> tv_class tv = tv_class tv_len2
                 \<and> proxy tv = length (nodes tx1) + 0
                 \<and> nodes t' ! proxy tv = getitem_node (proxy tv_len2) (int 0)"
    by (metis nat_numeral zero_less_numeral)
  moreover from r(3) have "\<exists>tv. vs ! 1 = TensorVariable tv \<and> tv_class tv = tv_class tv_len2
                 \<and> proxy tv = length (nodes tx1) + 1
                 \<and> nodes t' ! proxy tv = getitem_node (proxy tv_len2) (int 1)"
    by (metis nat_numeral one_less_numeral_iff semiring_norm(76))
  ultimately show ?thesis using r(1,2) d by (auto simp add: numeral_2_eq_2)
qed

subsection \<open>Resolving \<open>shape\<close> twice\<close>

lemma extent_content: "extent (content v) = extent v"
  by (cases v rule: extent.cases) simp_all

lemma dimension_extents_content: "dimension_extents (content v) = dimension_extents v"
  by (cases v) (simp_all add: extent_content comp_def)

lemma result_extents_content: "result_extents (result_content r) = result_extents r"
  by (auto simp add: result_extents_def result_content_def dimension_extents_content
      split: sum.splits)

lemma trace_extends_refl: "fresh_meta t \<Longrightarrow> trace_extends t t"
  by (simp add: trace_extends_def)

lemma trace_extends_trans:
  "trace_extends t t' \<Longrightarrow> trace_extends t' t'' \<Longrightarrow> trace_extends t t''"
  by (auto simp add: trace_extends_def)

lemma trace_extends_new_node:
  assumes "fresh_meta t"
  shows "trace_extends t (t\<lparr>nodes := nodes t @ [nd],
                            node_meta := (node_meta t)(length (nodes t) \<mapsto> ev)\<rparr>)"
  using assms by (simp add: trace_extends_def fresh_meta_def)

lemma trace_extends_append:
  assumes "fresh_meta t"
  shows "trace_extends t (t\<lparr>nodes := nodes t @ [nd]\<rparr>)"
  using assms by (simp add: trace_extends_def fresh_meta_def)

lemma wrap_size_items_extends:
  "fresh_meta t \<Longrightarrow> trace_extends t (snd (wrap_size_items p i xs t))"
proof (induction p i xs t rule: wrap_size_items.induct)
  case (1 p i t)
  then show ?case by (simp add: trace_extends_refl)
next
  case (2 p i n xs t)
  then show ?case by (simp add: split_beta)
next
  case (3 p i e xs t)
  let ?t2 = "t\<lparr>nodes := nodes t @ [getitem_node p (int i)],
               node_meta := (node_meta t)(length (nodes t) \<mapsto> ExSymInt e)\<rparr>"
  have a: "trace_extends t ?t2" by (rule trace_extends_new_node [OF "3.prems"])
  then have f: "fresh_meta ?t2" by (simp add: trace_extends_def)
  have "trace_extends ?t2 (snd (wrap_size_items p (i + 1) xs ?t2))"
    using "3.IH" [of "(length (nodes t), t\<lparr>nodes := nodes t @ [getitem_node p (int i)]\<rparr>)"
        "length (nodes t)" "t\<lparr>nodes := nodes t @ [getitem_node p (int i)]\<rparr>" ?t2] f
    by (simp add: create_proxy_def getitem_node_def)
  with a have "trace_extends t (snd (wrap_size_items p (i + 1) xs ?t2))"
    by (rule trace_extends_trans)
  then show ?case by (simp add: create_proxy_def getitem_node_def split_beta Let_def)
qed

lemma wrap_size_items_content:
  "map content (fst (wrap_size_items p i xs t))
     = map (\<lambda>x. case x of PyInt n \<Rightarrow> ConstantVariable (CInt (PyInt n))
                 | SymInt e \<Rightarrow> SymNodeVariable 0 (ExSymInt e)) xs"
  by (induction p i xs t rule: wrap_size_items.induct)
     (simp_all add: split_beta create_proxy_def Let_def)

lemma fake_of_arg_nodes_arg: "fake_of_arg (t\<lparr>nodes := ns\<rparr>) a = fake_of_arg t a"
  by (induction a) simp_all

lemma fake_of_arg_nodes: "fake_of_arg (t\<lparr>nodes := ns\<rparr>) = fake_of_arg t"
  by (rule ext) (rule fake_of_arg_nodes_arg)

lemma wrap_appended_value:
  assumes "fresh_meta t"
  shows "wrap_fx_proxy_cls c (length (nodes t)) src (t\<lparr>nodes := nodes t @ [Node k tg as kw]\<rparr>)
         = (case fake_op t k tg (map (fake_of_arg t) as) of
              None \<Rightarrow> (Inl OracleError, t\<lparr>nodes := nodes t @ [Node k tg as kw]\<rparr>)
            | Some ev \<Rightarrow>
               (let t1 = t\<lparr>nodes := nodes t @ [Node k tg as kw],
                           node_meta := (node_meta t)(length (nodes t) \<mapsto> ev)\<rparr> in
                case ev of
                  ExTensor v \<Rightarrow>
                    (case specialize v of
                       Inl e \<Rightarrow> (Inl e, t1)
                     | Inr pr \<Rightarrow>
                         (Inr (TensorVariable (new_tensor_variable c (length (nodes t)) pr src)), t1))
                | ExSize xs \<Rightarrow>
                    (Inr (SizeVariable (fst (wrap_size_items (length (nodes t)) 0 xs t1))),
                     snd (wrap_size_items (length (nodes t)) 0 xs t1))
                | ExSymInt e \<Rightarrow> (Inr (SymNodeVariable (length (nodes t)) ev), t1)
                | ExInt n \<Rightarrow> (Inr (ConstantVariable (CInt (PyInt n))), t1)
                | ExBool b \<Rightarrow> (Inr (ConstantVariable (CBool b)), t1)
                | ExSympyInteger n \<Rightarrow> (Inr (ConstantVariable (CInt (PyInt n))), t1)))"
proof -
  have m: "node_meta t (length (nodes t)) = None" using assms by (simp add: fresh_meta_def)
  show ?thesis
    by (simp add: wrap_fx_proxy_cls_def get_fake_value_def m fake_of_arg_nodes comp_def
        Let_def split_beta split: option.splits example_value.splits sum.splits)
qed

lemma wrap_appended_extends:
  assumes "fresh_meta t"
  shows "trace_extends t
           (snd (wrap_fx_proxy_cls c (length (nodes t)) src
                   (t\<lparr>nodes := nodes t @ [Node k tg as kw]\<rparr>)))"
proof (cases "fake_op t k tg (map (fake_of_arg t) as)")
  case None
  then show ?thesis
    by (simp add: wrap_appended_value [OF assms] trace_extends_append [OF assms])
next
  case (Some ev)
  let ?t1 = "t\<lparr>nodes := nodes t @ [Node k tg as kw],
               node_meta := (node_meta t)(length (nodes t) \<mapsto> ev)\<rparr>"
  have e: "trace_extends t ?t1" by (rule trace_extends_new_node [OF assms])
  then have f: "fresh_meta ?t1" by (simp add: trace_extends_def)
  have s: "trace_extends t (snd (wrap_size_items (length (nodes t)) 0 xs ?t1))" for xs
    using e wrap_size_items_extends [OF f] by (rule trace_extends_trans)
  show ?thesis
    using Some e s
    by (cases ev) (auto simp add: wrap_appended_value [OF assms] Let_def split: sum.splits)
qed

lemma wrap_appended_content:
  assumes "fresh_meta t" and "fresh_meta t'"
      and "fake_op t k tg (map (fake_of_arg t) as) = fake_op t' k tg (map (fake_of_arg t') as)"
  shows "map_sum id content
           (fst (wrap_fx_proxy_cls c (length (nodes t)) src
                   (t\<lparr>nodes := nodes t @ [Node k tg as kw]\<rparr>)))
       = map_sum id content
           (fst (wrap_fx_proxy_cls c (length (nodes t')) src
                   (t'\<lparr>nodes := nodes t' @ [Node k tg as kw]\<rparr>)))"
  using assms(3)
  by (simp add: wrap_appended_value [OF assms(1)] wrap_appended_value [OF assms(2)]
      Let_def wrap_size_items_content new_tensor_variable_def
      split: option.splits example_value.splits sum.splits)

lemma call_method_size_class:
  "call_method self ''size'' [] [] h t = TensorVariable_call_method self ''size'' [] [] h t"
  by (simp add: call_method_def NumpyNdarrayVariable_call_method_def patch_args_def)

lemma size_dispatch_value:
  "TensorVariable_call_method self ''size'' [] [] (Some (method_size self [])) t =
     (if strict_checks_enabled t \<and> ''size'' \<in> set (strict_mode_banned_ops t) then
        (Inl (unimplemented ''Illegal method invocation size in strict mode''), t)
      else
        (case method_size_stride self ''size'' None t of
           Inl e \<Rightarrow> (Inl (if e = TypeError then unimplemented ''unhandled args for size'' else e), t)
         | Inr (Some v) \<Rightarrow> (Inr v, t)
         | Inr None \<Rightarrow>
             wrap_fx_proxy_cls TensorVariableT (length (nodes t)) None
               (t\<lparr>nodes := nodes t @ [Node ''call_method'' ''size'' [ANode (proxy self)] []]\<rparr>)))"
  by (simp add: TensorVariable_call_method_def method_size_def proxy_args_kwargs_def
      create_proxy_def wrap_fx_proxy_def
      split: sum.splits option.splits error.splits)

lemma var_getattr_shape:
  "var_getattr self ''shape'' t =
     (if strict_checks_enabled t \<and> ''shape'' \<in> set (strict_mode_banned_ops t) then
        (Inl (unimplemented ''Illegal getattr invocation shape in strict mode''), t)
      else
        (case (case size' self of
                 Some sz \<Rightarrow> (Inr (SizeVariable (map (\<lambda>x. ConstantVariable (CInt x)) sz)), t)
               | None \<Rightarrow>
                   TensorVariable_call_method self ''size'' [] [] (Some (method_size self [])) t) of
           (Inl e, t1) \<Rightarrow> (Inl e, t1)
         | (Inr r, t1) \<Rightarrow>
             (case source self of
                None \<Rightarrow> (Inr (r, None), t1)
              | Some src \<Rightarrow>
                  (if ''shape'' \<in> set (inplace_view_ops t1)
                   then (Inr (DelayGraphBreakVariable (AttrSource src ''shape''), None),
                         install_guard (TYPE_MATCH (Some src)) t1)
                   else (Inr (r, Some (AttrSource src ''shape'')),
                         install_guard (TYPE_MATCH (Some src)) t1)))))"
  by (cases "size' self"; cases "source self")
     (auto simp add: var_getattr_def getattr_result_def call_method_size_class Let_def
        install_guard_def split: prod.splits sum.splits)

lemma method_size_stride_meta:
  assumes "node_meta t (proxy self) = node_meta t' (proxy self)"
  shows "method_size_stride self name d t = method_size_stride self name d t'"
  unfolding method_size_stride_def assms by (rule refl)

lemma size_dispatch_extends:
  assumes "fresh_meta t"
  shows "trace_extends t
           (snd (TensorVariable_call_method self ''size'' [] [] (Some (method_size self [])) t))"
  using trace_extends_refl [OF assms] wrap_appended_extends [OF assms]
  by (simp add: size_dispatch_value split: sum.splits option.splits)

lemma size_dispatch_content:
  assumes "fresh_meta t" and "trace_extends t t'" and "proxy self < length (nodes t)"
  shows "map_sum id content
           (fst (TensorVariable_call_method self ''size'' [] [] (Some (method_size self [])) t))
       = map_sum id content
           (fst (TensorVariable_call_method self ''size'' [] [] (Some (method_size self [])) t'))"
proof -
  from assms(2) have f': "fresh_meta t'"
    and s: "strict_checks_enabled t' = strict_checks_enabled t"
           "strict_mode_banned_ops t' = strict_mode_banned_ops t"
    and o: "fake_op t' = fake_op t"
    by (simp_all add: trace_extends_def)
  from assms(2,3) have m: "node_meta t' (proxy self) = node_meta t (proxy self)"
    by (simp add: trace_extends_def)
  have h: "method_size_stride self ''size'' None t' = method_size_stride self ''size'' None t"
    by (rule method_size_stride_meta [OF m])
  have w: "map_sum id content
             (fst (wrap_fx_proxy_cls TensorVariableT (length (nodes t)) None
                (t\<lparr>nodes := nodes t @ [Node ''call_method'' ''size'' [ANode (proxy self)] []]\<rparr>)))
         = map_sum id content
             (fst (wrap_fx_proxy_cls TensorVariableT (length (nodes t')) None
                (t'\<lparr>nodes := nodes t' @ [Node ''call_method'' ''size'' [ANode (proxy self)] []]\<rparr>)))"
    by (rule wrap_appended_content [OF assms(1) f']) (simp add: o m)
  show ?thesis
    using w by (simp add: size_dispatch_value s h split: sum.splits option.splits)
qed

lemma install_guard_extends:
  "trace_extends t t1 \<Longrightarrow> trace_extends t (install_guard g t1)"
  by (simp add: trace_extends_def install_guard_def fresh_meta_def)

lemma var_getattr_shape_extends:
  assumes "fresh_meta t"
  shows "trace_extends t (snd (var_getattr self ''shape'' t))"
proof (cases "size' self")
  case None
  have "trace_extends t
          (snd (TensorVariable_call_method self ''size'' [] [] (Some (method_size self [])) t))"
    by (rule size_dispatch_extends [OF assms])
  with None trace_extends_refl [OF assms] show ?thesis
    by (auto simp add: var_getattr_shape install_guard_extends
        split: prod.splits sum.splits option.splits)
next
  case (Some sz)
  with trace_extends_refl [OF assms] show ?thesis
    by (auto simp add: var_getattr_shape install_guard_extends split: option.splits)
qed

lemma var_getattr_shape_content:
  assumes "fresh_meta t" and "trace_extends t t'" and "proxy self < length (nodes t)"
  shows "result_content (fst (var_getattr self ''shape'' t))
       = result_content (fst (var_getattr self ''shape'' t'))"
proof -
  from assms(2) have s: "strict_checks_enabled t' = strict_checks_enabled t"
      "strict_mode_banned_ops t' = strict_mode_banned_ops t"
      "inplace_view_ops t' = inplace_view_ops t"
    by (simp_all add: trace_extends_def)
  let ?c = "\<lambda>t. TensorVariable_call_method self ''size'' [] [] (Some (method_size self [])) t"
  have c: "map_sum id content (fst (?c t)) = map_sum id content (fst (?c t'))"
    by (rule size_dispatch_content [OF assms])
  from assms(1) have "trace_extends t (snd (?c t))" by (rule size_dispatch_extends)
  then have i: "inplace_view_ops (snd (?c t)) = inplace_view_ops t"
    by (simp add: trace_extends_def)
  from assms(2) have "fresh_meta t'" by (simp add: trace_extends_def)
  then have "trace_extends t' (snd (?c t'))" by (rule size_dispatch_extends)
  then have i': "inplace_view_ops (snd (?c t')) = inplace_view_ops t"
    by (simp add: trace_extends_def s)
  show ?thesis
  proof (cases "size' self")
    case (Some sz)
    then show ?thesis
      by (simp add: var_getattr_shape s result_content_def split: option.splits)
  next
    case None
    obtain r1 t1 where r1: "?c t = (r1, t1)" by (cases "?c t")
    obtain r2 t2 where r2: "?c t' = (r2, t2)" by (cases "?c t'")
    from c r1 r2 have e: "map_sum id content r1 = map_sum id content r2" by simp
    from i r1 have j1: "inplace_view_ops t1 = inplace_view_ops t" by simp
    from i' r2 have j2: "inplace_view_ops t2 = inplace_view_ops t" by simp
    from e show ?thesis
      by (cases r1; cases r2)
         (simp_all add: var_getattr_shape None s r1 r2 j1 j2 result_content_def
            split: option.splits)
  qed
qed

text \<open>
  Claim C8. In a well-formed trace that holds the node of the variable, resolving the
  attribute \<open>shape\<close> a second time, in the state the first resolution leaves, gives an
  answer with the same content as the first: the same error, or the same variable up
  to the identity of graph nodes, with the same source. In particular the sequences
  of dimension extents of the two answers are equal.
\<close>

theorem shape_resolution_idempotent:
  assumes "fresh_meta t" and "proxy self < length (nodes t)"
  shows "result_content (fst (var_getattr self ''shape'' (snd (var_getattr self ''shape'' t))))
           = result_content (fst (var_getattr self ''shape'' t))
       \<and> result_extents (fst (var_getattr self ''shape'' (snd (var_getattr self ''shape'' t))))
           = result_extents (fst (var_getattr self ''shape'' t))"
proof -
  have e: "trace_extends t (snd (var_getattr self ''shape'' t))"
    by (rule var_getattr_shape_extends [OF assms(1)])
  have c: "result_content (fst (var_getattr self ''shape'' (snd (var_getattr self ''shape'' t))))
           = result_content (fst (var_getattr self ''shape'' t))"
    by (rule var_getattr_shape_content [OF assms(1) e assms(2), symmetric])
  have "result_extents (fst (var_getattr self ''shape'' (snd (var_getattr self ''shape'' t))))
        = result_extents (result_content
            (fst (var_getattr self ''shape'' (snd (var_getattr self ''shape'' t)))))"
    by (simp only: result_extents_content)
  also have "\<dots> = result_extents (result_content (fst (var_getattr self ''shape'' t)))"
    by (simp only: c)
  also have "\<dots> = result_extents (fst (var_getattr self ''shape'' t))"
    by (simp only: result_extents_content)
  finally show ?thesis using c by simp
qed

theorem shape_resolution_idempotent_witness:
  "fst (var_getattr tv0 ''shape'' tx_shape)
     = Inr (SizeVariable [SymNodeVariable 2 (ExSymInt (Sym 0)),
                          SymNodeVariable 3 (ExSymInt (Mul (Num 2) (Num 3)))], None)
   \<and> result_extents (fst (var_getattr tv0 ''shape'' (snd (var_getattr tv0 ''shape'' tx_shape))))
     = [Some (SymInt (Sym 0)), Some (SymInt (Mul (Num 2) (Num 3)))]"
proof -
  have a: "fst (var_getattr tv0 ''shape'' tx_shape)
     = Inr (SizeVariable [SymNodeVariable 2 (ExSymInt (Sym 0)),
                          SymNodeVariable 3 (ExSymInt (Mul (Num 2) (Num 3)))], None)"
    by (simp add: var_getattr_shape size_dispatch_value tv0_def tx_shape_def tx_dyn_def tx1_def
        tx0_def fake_dyn_def fake0_def method_size_stride_def has_free_symbols_tuple_def
        wrap_fx_proxy_cls_def get_fake_value_def create_proxy_def Let_def)
  have f: "fresh_meta tx_shape" "proxy tv0 < length (nodes tx_shape)"
    by (simp_all add: fresh_meta_def tx_shape_def tx_dyn_def tx1_def tx0_def tv0_def)
  from shape_resolution_idempotent [OF f]
  have "result_extents (fst (var_getattr tv0 ''shape'' (snd (var_getattr tv0 ''shape'' tx_shape))))
          = result_extents (fst (var_getattr tv0 ''shape'' tx_shape))"
    by simp
  also have "\<dots> = [Some (SymInt (Sym 0)), Some (SymInt (Mul (Num 2) (Num 3)))]"
    by (simp add: a result_extents_def)
  finally show ?thesis using a by simp
qed

end
